theory Spec2Isabelle
  imports Main "HOL-Library.Word"
begin

section \<open>Octets, randomness, errors\<close>

type_synonym byte = "8 word"
type_synonym bytes = "byte list"

text \<open>
  \<^verbatim>\<open>os.urandom(n)\<close> reads the next \<open>n\<close> octets of the system random source. The source
  is an endless sequence of octets; a call returns its first \<open>n\<close> octets and leaves the
  rest for the next call.
\<close>

type_synonym rng = "nat \<Rightarrow> byte"

definition urandom :: "nat \<Rightarrow> rng \<Rightarrow> bytes \<times> rng" where
  "urandom n r = (map r [0..<n], \<lambda>i. r (i + n))"

text \<open>
  Every exception the Python code can raise is a value. The first group are the
  exceptions of the source: \<open>MissingFailInfo\<close> is the
  \<^verbatim>\<open>ValueError('You cannot specify failure without failure info')\<close> of
  \<^verbatim>\<open>PKIMessageBuilder.pki_status\<close>, \<open>UnsupportedAlgorithm\<close> the
  \<^verbatim>\<open>ValueError('Unrecognised encryption algorithm ', ...)\<close> of \<^verbatim>\<open>encrypt\<close> and the
  \<^verbatim>\<open>ValueError('Unsupported hash algorithm: ...')\<close> of \<^verbatim>\<open>parse\<close>, \<open>MalformedASN1\<close> a failure
  of \<^verbatim>\<open>ContentInfo.load\<close>, and the others are Python's own exception classes
  (\<open>ValueError\<close> stands for the ones the cryptography library raises). The last four are
  named by the error taxonomy of the specification; no statement of the source raises
  them.
\<close>

datatype error =
    MissingFailInfo
  | UnsupportedAlgorithm
  | MalformedASN1
  | KeyError
  | AssertionError
  | AttributeError
  | IndexError
  | TypeError
  | ValueError
  | BadSignature
  | BadPadding
  | UnknownRecipient
  | NoRecipients

section \<open>Certificates and keys\<close>

type_synonym public_key = nat
type_synonym private_key = nat

record Certificate =
  cert_issuer :: string
  cert_serial_number :: int
  cert_public_key :: public_key

record IssuerAndSerialNumber =
  ias_issuer :: string
  ias_serial_number :: int

section \<open>CMS structures\<close>

datatype ContentType = CT_data | CT_signed_data | CT_enveloped_data

datatype HashName = sha1 | sha256 | sha512

datatype DigestAlgorithmId = DigestAlg HashName | OtherDigestAlg string

datatype SignedDigestAlgorithmId =
  rsassa_pkcs1v15 | sha1_rsa | sha256_rsa | sha512_rsa | rsassa_pss | OtherSignatureAlg string

text \<open>
  \<^verbatim>\<open>SignedDigestAlgorithm.signature_algo\<close> of asn1crypto: the signature scheme behind the
  identifier.
\<close>

fun signature_algo :: "SignedDigestAlgorithmId \<Rightarrow> string" where
  "signature_algo rsassa_pkcs1v15 = ''rsassa_pkcs1v15''"
| "signature_algo sha1_rsa = ''rsassa_pkcs1v15''"
| "signature_algo sha256_rsa = ''rsassa_pkcs1v15''"
| "signature_algo sha512_rsa = ''rsassa_pkcs1v15''"
| "signature_algo rsassa_pss = ''rsassa_pss''"
| "signature_algo (OtherSignatureAlg s) = s"

datatype EncryptionAlgorithmId =
  tripledes_3key | aes128_cbc | aes256_cbc | OtherEncryptionAlg string

text \<open>\<^verbatim>\<open>EncryptionAlgorithm.encryption_cipher\<close> of asn1crypto.\<close>

fun encryption_cipher :: "EncryptionAlgorithmId \<Rightarrow> string" where
  "encryption_cipher tripledes_3key = ''tripledes''"
| "encryption_cipher aes128_cbc = ''aes''"
| "encryption_cipher aes256_cbc = ''aes''"
| "encryption_cipher (OtherEncryptionAlg s) = s"

datatype KeyEncryptionAlgorithmId = rsa | rsaes_oaep

datatype AttributeType =
    AT_content_type
  | AT_message_digest
  | AT_signing_time
  | AT_message_type
  | AT_pki_status
  | AT_fail_info
  | AT_sender_nonce
  | AT_recipient_nonce
  | AT_transaction_id

datatype AttrValue =
    OctetString bytes
  | PrintableString string
  | ContentTypeValue ContentType

record CMSAttribute =
  attr_type :: AttributeType
  attr_values :: "AttrValue list"

record KeyTransRecipientInfo =
  ktri_version :: nat
  ktri_rid :: IssuerAndSerialNumber
  ktri_key_encryption_algorithm :: KeyEncryptionAlgorithmId
  ktri_encrypted_key :: bytes

record EncryptionAlgorithm =
  ea_algorithm :: EncryptionAlgorithmId
  ea_parameters :: bytes

record EncryptedContentInfo =
  eci_content_type :: ContentType
  eci_content_encryption_algorithm :: EncryptionAlgorithm
  eci_encrypted_content :: bytes

record EnvelopedData =
  ed_version :: nat
  ed_recipient_infos :: "KeyTransRecipientInfo list"
  ed_encrypted_content_info :: EncryptedContentInfo

datatype SignerIdentifier =
    issuer_and_serial_number IssuerAndSerialNumber
  | subject_key_identifier bytes

record SignerInfo =
  si_version :: nat
  si_sid :: SignerIdentifier
  si_digest_algorithm :: DigestAlgorithmId
  si_signed_attrs :: "CMSAttribute list"
  si_signature_algorithm :: SignedDigestAlgorithmId
  si_signature :: bytes

record EncapsulatedContentInfo =
  encap_content_type :: ContentType
  encap_content :: "bytes option"

record SignedData =
  sd_version :: nat
  sd_digest_algorithms :: "DigestAlgorithmId list"
  sd_encap_content_info :: EncapsulatedContentInfo
  sd_certificates :: "Certificate list"
  sd_signer_infos :: "SignerInfo list"

datatype Content =
    NoContent
  | SignedDataContent SignedData
  | EnvelopedDataContent EnvelopedData

record ContentInfo =
  ci_content_type :: ContentType
  ci_content :: Content

section \<open>The libraries the code calls\<close>

text \<open>
  The symmetric key objects of the cryptography library. \<^verbatim>\<open>TripleDES(key)\<close> accepts 8, 16
  or 24 octets and stores 24: an 8-octet key is repeated three times, a 16-octet key is
  followed by its first 8 octets; \<^verbatim>\<open>AES(key)\<close> accepts 16, 24 or 32 octets (the 64
  octets of XTS are of no use in CBC mode). Any other length is a \<^verbatim>\<open>ValueError\<close>. The
  attribute \<^verbatim>\<open>.key\<close> is the stored key.
\<close>

datatype symkey = TripleDES_key bytes | AES_key bytes

definition TripleDES :: "bytes \<Rightarrow> error + symkey" where
  "TripleDES k =
     (let k' = (if length k = 8 then k @ k @ k
                else if length k = 16 then k @ take 8 k
                else k)
      in if length k' = 24 then Inr (TripleDES_key k') else Inl ValueError)"

definition AES :: "bytes \<Rightarrow> error + symkey" where
  "AES k = (if length k \<in> {16, 24, 32} then Inr (AES_key k) else Inl ValueError)"

fun key :: "symkey \<Rightarrow> bytes" where
  "key (TripleDES_key k) = k"
| "key (AES_key k) = k"

text \<open>\<^verbatim>\<open>block_size\<close> of the two cipher classes, in bits.\<close>

definition TripleDES_block_size :: nat where
  "TripleDES_block_size = 64"

definition AES_block_size :: nat where
  "AES_block_size = 128"

text \<open>
  \<^verbatim>\<open>PKCS7(block_size).padder()\<close>: \<open>update\<close> followed by \<open>finalize\<close> appends \<open>n\<close> octets of
  value \<open>n\<close>, where \<open>n\<close> brings the length to the next multiple of the block size in
  octets; a whole block is appended when the length is a multiple already.
\<close>

definition PKCS7_pad :: "nat \<Rightarrow> bytes \<Rightarrow> bytes" where
  "PKCS7_pad block_size d =
     (let bs = block_size div 8; n = bs - length d mod bs
      in d @ replicate n (of_nat n))"

text \<open>
  The primitives of the cryptography library and the DER codec of asn1crypto are taken
  as parameters: digest, RSA PKCS#1 v1.5 signature, verification, encryption (which
  draws its padding from the random source) and decryption, CBC encryption and
  decryption (\<open>None\<close> where \<^verbatim>\<open>decryptor.finalize()\<close> raises), \<^verbatim>\<open>dump()\<close> of a
  \<^verbatim>\<open>ContentInfo\<close> and of a \<^verbatim>\<open>CMSAttributes\<close> value, \<^verbatim>\<open>ContentInfo.load\<close>, and
  \<^verbatim>\<open>str(uuid4())\<close>, which reads the random source.
\<close>

record crypto =
  hash :: "HashName \<Rightarrow> bytes \<Rightarrow> bytes"
  rsa_sign :: "private_key \<Rightarrow> HashName \<Rightarrow> bytes \<Rightarrow> bytes"
  rsa_verify :: "public_key \<Rightarrow> bytes \<Rightarrow> HashName \<Rightarrow> bytes \<Rightarrow> bool"
  rsa_encrypt :: "public_key \<Rightarrow> bytes \<Rightarrow> rng \<Rightarrow> bytes \<times> rng"
  rsa_decrypt :: "private_key \<Rightarrow> bytes \<Rightarrow> bytes option"
  cbc_encrypt :: "symkey \<Rightarrow> bytes \<Rightarrow> bytes \<Rightarrow> bytes"
  cbc_decrypt :: "symkey \<Rightarrow> bytes \<Rightarrow> bytes \<Rightarrow> bytes option"
  dump :: "ContentInfo \<Rightarrow> bytes"
  dump_attributes :: "CMSAttribute list \<Rightarrow> bytes"
  load :: "bytes \<Rightarrow> ContentInfo option"
  uuid4_str :: "rng \<Rightarrow> string \<times> rng"

section \<open>The envelope builder (envelope.py)\<close>

record PKCSPKIEnvelopeBuilder =
  env_data :: "bytes option"
  env_encryption_algorithm_id :: "EncryptionAlgorithmId option"
  env_recipients :: "Certificate list"

definition PKCSPKIEnvelopeBuilder_init :: PKCSPKIEnvelopeBuilder where
  "PKCSPKIEnvelopeBuilder_init =
     \<lparr>env_data = None, env_encryption_algorithm_id = None, env_recipients = []\<rparr>"

text \<open>
  A method that changes its object and may raise returns the exception, if any, and the
  object as the call leaves it: \<^verbatim>\<open>encrypt\<close> stores the data before it looks at the
  algorithm. The private methods \<^verbatim>\<open>_encrypt_data\<close> and \<^verbatim>\<open>_build_recipient_info\<close> are
  \<open>encrypt_data\<close> and \<open>build_recipient_info\<close>, and the two \<^verbatim>\<open>finalize\<close> methods carry the
  name of their class.
\<close>

definition encrypt ::
  "bytes \<Rightarrow> string option \<Rightarrow> PKCSPKIEnvelopeBuilder \<Rightarrow> error option \<times> PKCSPKIEnvelopeBuilder" where
  "encrypt d algorithm self =
     (let self1 = self\<lparr>env_data := Some d\<rparr>
      in if algorithm = Some ''3des'' then
           (None, self1\<lparr>env_encryption_algorithm_id := Some tripledes_3key\<rparr>)
         else if algorithm = Some ''aes128'' then
           (None, self1\<lparr>env_encryption_algorithm_id := Some aes128_cbc\<rparr>)
         else if algorithm = Some ''aes256'' then
           (None, self1\<lparr>env_encryption_algorithm_id := Some aes256_cbc\<rparr>)
         else (Some UnsupportedAlgorithm, self1))"

definition add_recipient :: "Certificate \<Rightarrow> PKCSPKIEnvelopeBuilder \<Rightarrow> PKCSPKIEnvelopeBuilder" where
  "add_recipient certificate self = self\<lparr>env_recipients := env_recipients self @ [certificate]\<rparr>"

text \<open>
  The first \<^verbatim>\<open>if\<close> chain of \<^verbatim>\<open>_encrypt_data\<close>: the key object and the IV, with the random
  source after the two reads. With an identifier outside the three, \<^verbatim>\<open>symkey\<close> stays
  \<^verbatim>\<open>None\<close> and \<^verbatim>\<open>Cipher\<close> refuses it.
\<close>

fun generate_key_iv :: "EncryptionAlgorithmId \<Rightarrow> rng \<Rightarrow> error + (symkey \<times> bytes \<times> rng)" where
  "generate_key_iv tripledes_3key r =
     (let (k, r1) = urandom 8 r; (iv, r2) = urandom 8 r1
      in case TripleDES k of Inl e \<Rightarrow> Inl e | Inr symkey \<Rightarrow> Inr (symkey, iv, r2))"
| "generate_key_iv aes128_cbc r =
     (let (k, r1) = urandom 16 r; (iv, r2) = urandom 16 r1
      in case AES k of Inl e \<Rightarrow> Inl e | Inr symkey \<Rightarrow> Inr (symkey, iv, r2))"
| "generate_key_iv aes256_cbc r =
     (let (k, r1) = urandom 32 r; (iv, r2) = urandom 16 r1
      in case AES k of Inl e \<Rightarrow> Inl e | Inr symkey \<Rightarrow> Inr (symkey, iv, r2))"
| "generate_key_iv (OtherEncryptionAlg s) r = Inl TypeError"

text \<open>
  The second \<^verbatim>\<open>if\<close> chain of \<^verbatim>\<open>_encrypt_data\<close>: the padder's block size. It is reached
  only with one of the three identifiers.
\<close>

fun padder_block_size :: "EncryptionAlgorithmId \<Rightarrow> nat" where
  "padder_block_size tripledes_3key = TripleDES_block_size"
| "padder_block_size aes128_cbc = AES_block_size"
| "padder_block_size aes256_cbc = AES_block_size"
| "padder_block_size (OtherEncryptionAlg s) = 0"

text \<open>
  \<^verbatim>\<open>_encrypt_data\<close>. With no algorithm set, \<^verbatim>\<open>self._encryption_algorithm_id.native\<close> is an
  attribute of \<^verbatim>\<open>None\<close>; with no data set, the padder refuses \<^verbatim>\<open>None\<close>.
\<close>

definition encrypt_data ::
  "crypto \<Rightarrow> bytes option \<Rightarrow> PKCSPKIEnvelopeBuilder \<Rightarrow> rng \<Rightarrow>
   error + ((symkey \<times> bytes \<times> bytes) \<times> rng)" where
  "encrypt_data p d self r =
     (case env_encryption_algorithm_id self of
        None \<Rightarrow> Inl AttributeError
      | Some alg \<Rightarrow>
          (case generate_key_iv alg r of
             Inl e \<Rightarrow> Inl e
           | Inr (symkey, iv, r') \<Rightarrow>
               (case d of
                  None \<Rightarrow> Inl TypeError
                | Some plain \<Rightarrow>
                    (let padded = PKCS7_pad (padder_block_size alg) plain;
                         ciphertext = cbc_encrypt p symkey iv padded
                     in Inr ((symkey, iv, ciphertext), r')))))"

definition build_recipient_info ::
  "crypto \<Rightarrow> bytes \<Rightarrow> Certificate \<Rightarrow> rng \<Rightarrow> KeyTransRecipientInfo \<times> rng" where
  "build_recipient_info p symmetric_key recipient r =
     (let (encrypted_symkey, r') = rsa_encrypt p (cert_public_key recipient) symmetric_key r;
          ias = \<lparr>ias_issuer = cert_issuer recipient,
                 ias_serial_number = cert_serial_number recipient\<rparr>
      in (\<lparr>ktri_version = 0, ktri_rid = ias, ktri_key_encryption_algorithm = rsa,
           ktri_encrypted_key = encrypted_symkey\<rparr>, r'))"

text \<open>The list comprehension of \<^verbatim>\<open>finalize\<close> over the recipients, in order.\<close>

fun build_recipient_infos ::
  "crypto \<Rightarrow> bytes \<Rightarrow> Certificate list \<Rightarrow> rng \<Rightarrow> KeyTransRecipientInfo list \<times> rng" where
  "build_recipient_infos p symmetric_key [] r = ([], r)"
| "build_recipient_infos p symmetric_key (c # cs) r =
     (let (ri, r1) = build_recipient_info p symmetric_key c r;
          (ris, r2) = build_recipient_infos p symmetric_key cs r1
      in (ri # ris, r2))"

definition PKCSPKIEnvelopeBuilder_finalize ::
  "crypto \<Rightarrow> PKCSPKIEnvelopeBuilder \<Rightarrow> rng \<Rightarrow>
   error + ((EnvelopedData \<times> symkey \<times> bytes) \<times> rng)" where
  "PKCSPKIEnvelopeBuilder_finalize p self r =
     (case encrypt_data p (env_data self) self r of
        Inl e \<Rightarrow> Inl e
      | Inr ((sym_key, iv, ciphertext), r1) \<Rightarrow>
          (case env_encryption_algorithm_id self of
             None \<Rightarrow> Inl AttributeError
           | Some alg \<Rightarrow>
               (let eci = \<lparr>eci_content_type = CT_data,
                           eci_content_encryption_algorithm =
                             \<lparr>ea_algorithm = alg, ea_parameters = iv\<rparr>,
                           eci_encrypted_content = ciphertext\<rparr>;
                    (recipients, r2) =
                      build_recipient_infos p (key sym_key) (env_recipients self) r1;
                    ed = \<lparr>ed_version = 1, ed_recipient_infos = recipients,
                          ed_encrypted_content_info = eci\<rparr>
                in Inr ((ed, sym_key, iv), r2))))"

section \<open>The message builder (builders.py)\<close>

text \<open>
  Modelled from the spec: the module \<^verbatim>\<open>enums\<close> (\<^verbatim>\<open>MessageType\<close>, \<^verbatim>\<open>PKIStatus\<close>,
  \<^verbatim>\<open>FailInfo\<close>) is imported by the source and is not part of it. The members and their
  \<^verbatim>\<open>.value\<close> strings are those of section 6 of the specification.
\<close>

datatype MessageType = PKCSReq | RenewalReq | UpdateReq | GetCertInitial | CertRep

fun MessageType_value :: "MessageType \<Rightarrow> string" where
  "MessageType_value PKCSReq = ''3''"
| "MessageType_value RenewalReq = ''17''"
| "MessageType_value UpdateReq = ''19''"
| "MessageType_value GetCertInitial = ''20''"
| "MessageType_value CertRep = ''22''"

datatype PKIStatus = SUCCESS | FAILURE | PENDING

fun PKIStatus_value :: "PKIStatus \<Rightarrow> string" where
  "PKIStatus_value SUCCESS = ''0''"
| "PKIStatus_value FAILURE = ''2''"
| "PKIStatus_value PENDING = ''3''"

datatype FailInfo = badAlg | badMessageCheck | badRequest | badTime | badCertId

fun FailInfo_value :: "FailInfo \<Rightarrow> string" where
  "FailInfo_value badAlg = ''0''"
| "FailInfo_value badMessageCheck = ''1''"
| "FailInfo_value badRequest = ''2''"
| "FailInfo_value badTime = ''3''"
| "FailInfo_value badCertId = ''4''"

text \<open>
  Python lists are objects: two names can hold the same list, and \<^verbatim>\<open>append\<close> and
  \<^verbatim>\<open>insert\<close> change it for both. The attribute lists of the builder and of the signers
  therefore live in a store, and the objects hold references into it.
\<close>

type_synonym ref = nat

record heap =
  lists :: "ref \<Rightarrow> CMSAttribute list"
  next_ref :: ref

definition new_list :: "heap \<Rightarrow> ref \<times> heap" where
  "new_list h = (next_ref h, h\<lparr>lists := (lists h)(next_ref h := []), next_ref := Suc (next_ref h)\<rparr>)"

definition list_append :: "ref \<Rightarrow> CMSAttribute \<Rightarrow> heap \<Rightarrow> heap" where
  "list_append a x h = h\<lparr>lists := (lists h)(a := lists h a @ [x])\<rparr>"

definition list_insert0 :: "ref \<Rightarrow> CMSAttribute \<Rightarrow> heap \<Rightarrow> heap" where
  "list_insert0 a x h = h\<lparr>lists := (lists h)(a := x # lists h a)\<rparr>"

record Signer =
  signer_certificate :: Certificate
  signer_private_key :: private_key
  digest_algorithm_id :: HashName
  signed_attributes :: ref

text \<open>
  \<^verbatim>\<open>Signer.__init__\<close>: the dictionary lookup raises \<^verbatim>\<open>KeyError\<close> for any other name; a
  fresh list is made when no list is passed.
\<close>

definition Signer_init ::
  "Certificate \<Rightarrow> private_key \<Rightarrow> string \<Rightarrow> ref option \<Rightarrow> heap \<Rightarrow> error + (Signer \<times> heap)" where
  "Signer_init certificate private_key digest_algorithm signed_attrs h =
     (case (if digest_algorithm = ''sha1'' then Some sha1
            else if digest_algorithm = ''sha256'' then Some sha256
            else if digest_algorithm = ''sha512'' then Some sha512
            else None) of
        None \<Rightarrow> Inl KeyError
      | Some alg \<Rightarrow>
          (let (a, h') = (case signed_attrs of None \<Rightarrow> new_list h | Some a \<Rightarrow> (a, h))
           in Inr (\<lparr>signer_certificate = certificate, signer_private_key = private_key,
                    digest_algorithm_id = alg, signed_attributes = a\<rparr>, h')))"

definition sid :: "Signer \<Rightarrow> SignerIdentifier" where
  "sid self =
     issuer_and_serial_number
       \<lparr>ias_issuer = cert_issuer (signer_certificate self),
        ias_serial_number = cert_serial_number (signer_certificate self)\<rparr>"

text \<open>
  \<^verbatim>\<open>Signer.sign\<close>. The assignment \<^verbatim>\<open>self.signed_attributes = cms_attributes\<close> stores the
  caller's list itself, not a copy, and the two \<^verbatim>\<open>insert(0, ...)\<close> change that list.
  \<^verbatim>\<open>CMSAttributes(self.signed_attributes)\<close> reads the list as it is then.
\<close>

definition sign ::
  "crypto \<Rightarrow> bytes \<Rightarrow> ContentType \<Rightarrow> bytes \<Rightarrow> ref \<Rightarrow> Signer \<Rightarrow> heap \<Rightarrow>
   SignerInfo \<times> Signer \<times> heap" where
  "sign p d content_type content_digest cms_attributes self h =
     (let self1 = self\<lparr>signed_attributes := cms_attributes\<rparr>;
          h1 = list_insert0 (signed_attributes self1)
                 \<lparr>attr_type = AT_message_digest, attr_values = [OctetString content_digest]\<rparr> h;
          h2 = list_insert0 (signed_attributes self1)
                 \<lparr>attr_type = AT_content_type, attr_values = [ContentTypeValue content_type]\<rparr> h1;
          attrs = lists h2 (signed_attributes self1);
          signature = rsa_sign p (signer_private_key self1) (digest_algorithm_id self1)
                        (dump_attributes p attrs)
      in (\<lparr>si_version = 1, si_sid = sid self1,
           si_digest_algorithm = DigestAlg (digest_algorithm_id self1),
           si_signed_attrs = attrs,
           si_signature_algorithm = rsassa_pkcs1v15,
           si_signature = signature\<rparr>, self1, h2))"

text \<open>
  The builder. Its methods \<^verbatim>\<open>certificates\<close> and \<^verbatim>\<open>pki_envelope\<close> are \<open>add_certificates\<close>
  and \<open>set_pki_envelope\<close> here, since the fields have these names.
\<close>

record PKIMessageBuilder =
  signers :: "Signer list"
  cms_attributes :: ref
  certificates :: "Certificate list"
  pki_envelope :: "EnvelopedData option"

definition PKIMessageBuilder_init :: "heap \<Rightarrow> PKIMessageBuilder \<times> heap" where
  "PKIMessageBuilder_init h =
     (let (a, h') = new_list h
      in (\<lparr>signers = [], cms_attributes = a, certificates = [], pki_envelope = None\<rparr>, h'))"

definition add_certificates :: "Certificate list \<Rightarrow> PKIMessageBuilder \<Rightarrow> PKIMessageBuilder" where
  "add_certificates certs self = self\<lparr>certificates := certificates self @ certs\<rparr>"

definition add_signer :: "Signer \<Rightarrow> PKIMessageBuilder \<Rightarrow> PKIMessageBuilder" where
  "add_signer signer self =
     self\<lparr>signers := signers self @ [signer],
          certificates := certificates self @ [signer_certificate signer]\<rparr>"

definition message_type :: "MessageType \<Rightarrow> PKIMessageBuilder \<Rightarrow> heap \<Rightarrow> heap" where
  "message_type mt self h =
     list_append (cms_attributes self)
       \<lparr>attr_type = AT_message_type, attr_values = [PrintableString (MessageType_value mt)]\<rparr> h"

definition set_pki_envelope :: "EnvelopedData \<Rightarrow> PKIMessageBuilder \<Rightarrow> PKIMessageBuilder" where
  "set_pki_envelope envelope self = self\<lparr>pki_envelope := Some envelope\<rparr>"

text \<open>
  \<^verbatim>\<open>pki_status\<close>: the status attribute is appended first; with \<^verbatim>\<open>FAILURE\<close> and no
  \<^verbatim>\<open>failure_info\<close> the method then raises, and the list keeps the status attribute.
\<close>

definition pki_status ::
  "PKIStatus \<Rightarrow> FailInfo option \<Rightarrow> PKIMessageBuilder \<Rightarrow> heap \<Rightarrow> error option \<times> heap" where
  "pki_status status failure_info self h =
     (let h1 = list_append (cms_attributes self)
                 \<lparr>attr_type = AT_pki_status,
                  attr_values = [PrintableString (PKIStatus_value status)]\<rparr> h
      in if status = FAILURE then
           (case failure_info of
              None \<Rightarrow> (Some MissingFailInfo, h1)
            | Some fi \<Rightarrow>
                (None, list_append (cms_attributes self)
                         \<lparr>attr_type = AT_fail_info,
                          attr_values = [PrintableString (FailInfo_value fi)]\<rparr> h1))
         else (None, h1))"

definition sender_nonce :: "bytes option \<Rightarrow> PKIMessageBuilder \<Rightarrow> heap \<Rightarrow> rng \<Rightarrow> heap \<times> rng" where
  "sender_nonce nonce self h r =
     (let (n, r') = (case nonce of Some b \<Rightarrow> (b, r) | None \<Rightarrow> urandom 16 r)
      in (list_append (cms_attributes self)
            \<lparr>attr_type = AT_sender_nonce, attr_values = [OctetString n]\<rparr> h, r'))"

definition recipient_nonce :: "bytes \<Rightarrow> PKIMessageBuilder \<Rightarrow> heap \<Rightarrow> heap" where
  "recipient_nonce nonce self h =
     list_append (cms_attributes self)
       \<lparr>attr_type = AT_recipient_nonce, attr_values = [OctetString nonce]\<rparr> h"

definition transaction_id ::
  "crypto \<Rightarrow> string option \<Rightarrow> PKIMessageBuilder \<Rightarrow> heap \<Rightarrow> rng \<Rightarrow> heap \<times> rng" where
  "transaction_id p trans_id self h r =
     (let (t, r') = (case trans_id of Some s \<Rightarrow> (s, r) | None \<Rightarrow> uuid4_str p r)
      in (list_append (cms_attributes self)
            \<lparr>attr_type = AT_transaction_id, attr_values = [PrintableString t]\<rparr> h, r'))"

text \<open>
  \<^verbatim>\<open>_build_signerinfos\<close>: the signers sign in order, each with the same list reference.
\<close>

fun build_signerinfos ::
  "crypto \<Rightarrow> bytes \<Rightarrow> bytes \<Rightarrow> ref \<Rightarrow> Signer list \<Rightarrow> heap \<Rightarrow>
   SignerInfo list \<times> Signer list \<times> heap" where
  "build_signerinfos p content content_digest a [] h = ([], [], h)"
| "build_signerinfos p content content_digest a (s # ss) h =
     (let (si, s', h1) = sign p content CT_data content_digest a s h;
          (sis, ss', h2) = build_signerinfos p content content_digest a ss h1
      in (si # sis, s' # ss', h2))"

definition pkienvelope_content_info :: "PKIMessageBuilder \<Rightarrow> ContentInfo" where
  "pkienvelope_content_info self =
     \<lparr>ci_content_type = CT_enveloped_data,
      ci_content = (case pki_envelope self of None \<Rightarrow> NoContent
                    | Some e \<Rightarrow> EnvelopedDataContent e)\<rparr>"

definition PKIMessageBuilder_finalize ::
  "crypto \<Rightarrow> PKIMessageBuilder \<Rightarrow> heap \<Rightarrow> ContentInfo \<times> PKIMessageBuilder \<times> heap" where
  "PKIMessageBuilder_finalize p self h =
     (let inner = dump p (pkienvelope_content_info self);
          encap_info = \<lparr>encap_content_type = CT_data, encap_content = Some inner\<rparr>;
          d = hash p sha1 inner;
          (signer_infos, signers', h') =
            build_signerinfos p inner d (cms_attributes self) (signers self) h;
          sd = \<lparr>sd_version = 1,
                sd_digest_algorithms = [DigestAlg sha1],
                sd_encap_content_info = encap_info,
                sd_certificates = certificates self,
                sd_signer_infos = signer_infos\<rparr>
      in (\<lparr>ci_content_type = CT_signed_data, ci_content = SignedDataContent sd\<rparr>,
          self\<lparr>signers := signers'\<rparr>, h'))"

section \<open>The message parser (message.py)\<close>

text \<open>
  The fields of a \<^verbatim>\<open>SCEPMessage\<close>. Attribute values are kept as they are in the
  message (\<^verbatim>\<open>.native\<close> of a value is its string or its octets). \<open>msg_signed_data\<close> is
  \<open>None\<close> while the attribute is \<^verbatim>\<open>None\<close>, and \<open>Some None\<close> when the message has no
  encapsulated content; \<open>msg_fail_info\<close> is \<open>None\<close> while the attribute does not exist.
\<close>

record SCEPMessage =
  msg_transaction_id :: "AttrValue option"
  msg_message_type :: "MessageType"
  msg_sender_nonce :: "AttrValue option"
  msg_recipient_nonce :: "AttrValue option"
  msg_pki_status :: "AttrValue option"
  msg_fail_info :: "AttrValue option"
  msg_signer_info :: "SignerInfo option"
  msg_signed_data :: "bytes option option"
  msg_certificates :: "Certificate list"

definition SCEPMessage_init :: SCEPMessage where
  "SCEPMessage_init =
     \<lparr>msg_transaction_id = None, msg_message_type = CertRep, msg_sender_nonce = None,
      msg_recipient_nonce = None, msg_pki_status = None, msg_fail_info = None,
      msg_signer_info = None, msg_signed_data = None, msg_certificates = []\<rparr>"

text \<open>\<^verbatim>\<open>MessageType(value)\<close>: the member with that value, or \<^verbatim>\<open>ValueError\<close>.\<close>

definition MessageType_of :: "AttrValue \<Rightarrow> error + MessageType" where
  "MessageType_of v =
     (if v = PrintableString ''3'' then Inr PKCSReq
      else if v = PrintableString ''17'' then Inr RenewalReq
      else if v = PrintableString ''19'' then Inr UpdateReq
      else if v = PrintableString ''20'' then Inr GetCertInitial
      else if v = PrintableString ''22'' then Inr CertRep
      else Inl ValueError)"

text \<open>
  The body of the loop over the signed attributes: \<^verbatim>\<open>signed_attr['values'][0]\<close> is read
  only in the six branches, and raises \<^verbatim>\<open>IndexError\<close> on an empty list of values.
\<close>

definition set_attribute :: "CMSAttribute \<Rightarrow> SCEPMessage \<Rightarrow> error + SCEPMessage" where
  "set_attribute signed_attr msg =
     (let name = attr_type signed_attr in
      if name \<in> {AT_transaction_id, AT_message_type, AT_sender_nonce, AT_recipient_nonce,
                  AT_pki_status, AT_fail_info} then
        (case attr_values signed_attr of
           [] \<Rightarrow> Inl IndexError
         | v # _ \<Rightarrow>
             if name = AT_transaction_id then Inr (msg\<lparr>msg_transaction_id := Some v\<rparr>)
             else if name = AT_message_type then
               (case MessageType_of v of Inl e \<Rightarrow> Inl e
                | Inr mt \<Rightarrow> Inr (msg\<lparr>msg_message_type := mt\<rparr>))
             else if name = AT_sender_nonce then Inr (msg\<lparr>msg_sender_nonce := Some v\<rparr>)
             else if name = AT_recipient_nonce then Inr (msg\<lparr>msg_recipient_nonce := Some v\<rparr>)
             else if name = AT_pki_status then Inr (msg\<lparr>msg_pki_status := Some v\<rparr>)
             else Inr (msg\<lparr>msg_fail_info := Some v\<rparr>))
      else Inr msg)"

fun set_attributes :: "CMSAttribute list \<Rightarrow> SCEPMessage \<Rightarrow> error + SCEPMessage" where
  "set_attributes [] msg = Inr msg"
| "set_attributes (a # as) msg =
     (case set_attribute a msg of Inl e \<Rightarrow> Inl e | Inr msg' \<Rightarrow> set_attributes as msg')"

text \<open>
  The body of the loop of \<^verbatim>\<open>parse\<close> over the signer infos. \<open>certs\<close> is \<open>None\<close> when the
  message carries no certificate. The signer certificate is the first attached
  certificate with the signer's serial number. In the block guarded by
  \<^verbatim>\<open>certs is not None and len(certs) > 0\<close> the code builds a verifier from the
  certificate's public key (an attribute of \<^verbatim>\<open>None\<close> when no certificate matched),
  feeds it the DER of the signed attributes and computes two SHA-512 digests;
  \<^verbatim>\<open>content_digest.update\<close> refuses \<^verbatim>\<open>None\<close> when the content is absent. The call
  \<^verbatim>\<open>verifier.verify()\<close> is commented out, so the verifier and the digests are dropped
  and nothing is compared.
\<close>

definition parse_signer_info ::
  "crypto \<Rightarrow> SignedData \<Rightarrow> Certificate list option \<Rightarrow> SignerInfo \<Rightarrow> SCEPMessage \<Rightarrow>
   error + SCEPMessage" where
  "parse_signer_info p signed_data certs signer_info msg =
     (case si_sid signer_info of
        subject_key_identifier b \<Rightarrow> Inl AssertionError
      | issuer_and_serial_number identifier \<Rightarrow>
          (let signer_cert =
                 (case certs of None \<Rightarrow> None
                  | Some cs \<Rightarrow>
                      find (\<lambda>c. cert_serial_number c = ias_serial_number identifier) cs);
               sig_algo = signature_algo (si_signature_algorithm signer_info)
           in case si_digest_algorithm signer_info of
                OtherDigestAlg n \<Rightarrow> Inl UnsupportedAlgorithm
              | DigestAlg hasher \<Rightarrow>
                  if sig_algo \<noteq> ''rsassa_pkcs1v15'' then Inl AssertionError
                  else
                    (case (if (case certs of None \<Rightarrow> False | Some cs \<Rightarrow> 0 < length cs) then
                             (case signer_cert of
                                None \<Rightarrow> Inl AttributeError
                              | Some c \<Rightarrow>
                                  if encap_content_type (sd_encap_content_info signed_data) \<noteq> CT_data
                                  then Inl AssertionError
                                  else (case encap_content (sd_encap_content_info signed_data) of
                                          None \<Rightarrow> Inl TypeError
                                        | Some content \<Rightarrow>
                                            (let content_digest_r = hash p sha512 content;
                                                 cdsa_r = hash p sha512
                                                   (dump_attributes p (si_signed_attrs signer_info))
                                             in Inr ())))
                           else Inr ()) of
                       Inl e \<Rightarrow> Inl e
                     | Inr u \<Rightarrow>
                         set_attributes (si_signed_attrs signer_info)
                           (msg\<lparr>msg_signer_info := Some signer_info\<rparr>))))"

fun parse_signer_infos ::
  "crypto \<Rightarrow> SignedData \<Rightarrow> Certificate list option \<Rightarrow> SignerInfo list \<Rightarrow> SCEPMessage \<Rightarrow>
   error + SCEPMessage" where
  "parse_signer_infos p signed_data certs [] msg = Inr msg"
| "parse_signer_infos p signed_data certs (si # sis) msg =
     (case parse_signer_info p signed_data certs si msg of
        Inl e \<Rightarrow> Inl e
      | Inr msg' \<Rightarrow> parse_signer_infos p signed_data certs sis msg')"

definition parse :: "crypto \<Rightarrow> bytes \<Rightarrow> error + SCEPMessage" where
  "parse p raw =
     (case load p raw of
        None \<Rightarrow> Inl MalformedASN1
      | Some cinfo \<Rightarrow>
          if ci_content_type cinfo \<noteq> CT_signed_data then Inl AssertionError
          else
            (case ci_content cinfo of
               SignedDataContent signed_data \<Rightarrow>
                 (let msg = SCEPMessage_init;
                      (certs, msg1) =
                        (if 0 < length (sd_certificates signed_data)
                         then (Some (sd_certificates signed_data),
                               msg\<lparr>msg_certificates := sd_certificates signed_data\<rparr>)
                         else (None, msg))
                  in case parse_signer_infos p signed_data certs
                            (sd_signer_infos signed_data) msg1 of
                       Inl e \<Rightarrow> Inl e
                     | Inr msg2 \<Rightarrow>
                         Inr (msg2\<lparr>msg_signed_data :=
                                     Some (encap_content (sd_encap_content_info signed_data))\<rparr>))
             | EnvelopedDataContent e \<Rightarrow> Inl MalformedASN1
             | NoContent \<Rightarrow> Inl MalformedASN1))"

text \<open>The property \<^verbatim>\<open>encap_content_info\<close>: \<^verbatim>\<open>ContentInfo.load(self._signed_data.native)\<close>.\<close>

definition encap_content_info :: "crypto \<Rightarrow> SCEPMessage \<Rightarrow> error + ContentInfo" where
  "encap_content_info p self =
     (case msg_signed_data self of
        None \<Rightarrow> Inl AttributeError
      | Some None \<Rightarrow> Inl TypeError
      | Some (Some b) \<Rightarrow>
          (case load p b of None \<Rightarrow> Inl MalformedASN1 | Some ci \<Rightarrow> Inr ci))"

text \<open>
  \<^verbatim>\<open>get_decrypted_envelope_data\<close>. The recipient info is always the first one
  (\<^verbatim>\<open>recipient_infos[0]\<close>); the parameter \<^verbatim>\<open>certificate\<close> is not read. The result is what
  the CBC decryptor returns.
\<close>

definition get_decrypted_envelope_data ::
  "crypto \<Rightarrow> SCEPMessage \<Rightarrow> Certificate \<Rightarrow> private_key \<Rightarrow> error + bytes" where
  "get_decrypted_envelope_data p self certificate k =
     (case encap_content_info p self of
        Inl e \<Rightarrow> Inl e
      | Inr encap \<Rightarrow>
          (case ci_content encap of
             NoContent \<Rightarrow> Inl TypeError
           | SignedDataContent sd \<Rightarrow> Inl KeyError
           | EnvelopedDataContent ed \<Rightarrow>
               (case ed_recipient_infos ed of
                  [] \<Rightarrow> Inl IndexError
                | recipient_info # rest \<Rightarrow>
                    if ktri_key_encryption_algorithm recipient_info \<noteq> rsa then Inl AssertionError
                    else
                      (case rsa_decrypt p k (ktri_encrypted_key recipient_info) of
                         None \<Rightarrow> Inl ValueError
                       | Some plain_key \<Rightarrow>
                           (let encrypted_contentinfo = ed_encrypted_content_info ed;
                                algorithm = eci_content_encryption_algorithm encrypted_contentinfo;
                                encrypted_content_bytes = eci_encrypted_content encrypted_contentinfo
                            in case (if encryption_cipher (ea_algorithm algorithm) = ''aes''
                                     then AES plain_key
                                     else if encryption_cipher (ea_algorithm algorithm) = ''tripledes''
                                     then TripleDES plain_key
                                     else Inl TypeError) of
                                 Inl e \<Rightarrow> Inl e
                               | Inr symkey \<Rightarrow>
                                   (case cbc_decrypt p symkey (ea_parameters algorithm)
                                           encrypted_content_bytes of
                                      None \<Rightarrow> Inl ValueError
                                    | Some plain \<Rightarrow> Inr plain))))))"

section \<open>Observations and examples\<close>

text \<open>The signer infos of a finished message.\<close>

definition signer_infos_of :: "ContentInfo \<Rightarrow> SignerInfo list" where
  "signer_infos_of ci =
     (case ci_content ci of SignedDataContent sd \<Rightarrow> sd_signer_infos sd | _ \<Rightarrow> [])"

text \<open>The two attributes \<^verbatim>\<open>Signer.sign\<close> inserts.\<close>

definition content_type_attr :: "ContentType \<Rightarrow> CMSAttribute" where
  "content_type_attr ct = \<lparr>attr_type = AT_content_type, attr_values = [ContentTypeValue ct]\<rparr>"

definition message_digest_attr :: "bytes \<Rightarrow> CMSAttribute" where
  "message_digest_attr d = \<lparr>attr_type = AT_message_digest, attr_values = [OctetString d]\<rparr>"

text \<open>
  What a caller has put into a builder: the certificate, key and digest name of each
  signer, the contents of the attribute list, the certificates and the envelope. The
  address of the list, the rest of the store and the list a signer held before are not
  part of it.
\<close>

definition signer_inputs :: "Signer \<Rightarrow> Certificate \<times> private_key \<times> HashName" where
  "signer_inputs s = (signer_certificate s, signer_private_key s, digest_algorithm_id s)"

definition builder_inputs ::
  "PKIMessageBuilder \<Rightarrow> heap \<Rightarrow>
   (Certificate \<times> private_key \<times> HashName) list \<times> CMSAttribute list \<times> Certificate list \<times>
   EnvelopedData option" where
  "builder_inputs self h =
     (map signer_inputs (signers self), lists h (cms_attributes self), certificates self,
      pki_envelope self)"

text \<open>
  A small stand-in for the libraries, for the concrete examples: the digest is one octet
  naming the algorithm, a signature is the octet of the key, RSA encryption puts the
  octet of the key in front and decryption with another key fails, the block cipher is
  the identity, and the codec writes one octet for the content type.
\<close>

definition toy :: crypto where
  "toy = \<lparr>hash = (\<lambda>a d. [case a of sha1 \<Rightarrow> 1 | sha256 \<Rightarrow> 2 | sha512 \<Rightarrow> 3]),
          rsa_sign = (\<lambda>k a m. [of_nat k]),
          rsa_verify = (\<lambda>k s a m. s = [of_nat k]),
          rsa_encrypt = (\<lambda>k m r. (of_nat k # m, r)),
          rsa_decrypt = (\<lambda>k c. case c of [] \<Rightarrow> None
                                | x # m \<Rightarrow> if x = of_nat k then Some m else None),
          cbc_encrypt = (\<lambda>sk iv x. x),
          cbc_decrypt = (\<lambda>sk iv c. Some c),
          dump = (\<lambda>ci. [case ci_content_type ci of CT_data \<Rightarrow> 0 | CT_enveloped_data \<Rightarrow> 1
                                                    | CT_signed_data \<Rightarrow> 2]),
          dump_attributes = (\<lambda>as. []),
          load = (\<lambda>b. None),
          uuid4_str = (\<lambda>r. ([], r))\<rparr>"

definition rng0 :: rng where
  "rng0 = (\<lambda>i. of_nat i)"

definition cert_A :: Certificate where
  "cert_A = \<lparr>cert_issuer = ''CA'', cert_serial_number = 1, cert_public_key = 7\<rparr>"

definition cert_B :: Certificate where
  "cert_B = \<lparr>cert_issuer = ''CA'', cert_serial_number = 2, cert_public_key = 9\<rparr>"

definition env0 :: PKCSPKIEnvelopeBuilder where
  "env0 = \<lparr>env_data = Some [65], env_encryption_algorithm_id = Some aes128_cbc,
           env_recipients = []\<rparr>"

definition signer_A :: Signer where
  "signer_A = \<lparr>signer_certificate = cert_A, signer_private_key = 7,
               digest_algorithm_id = sha256, signed_attributes = 1\<rparr>"

definition message_type_attr :: CMSAttribute where
  "message_type_attr = \<lparr>attr_type = AT_message_type, attr_values = [PrintableString ''3'']\<rparr>"

definition builder0 :: PKIMessageBuilder where
  "builder0 = \<lparr>signers = [signer_A], cms_attributes = 0, certificates = [cert_A],
               pki_envelope = None\<rparr>"

definition heap0 :: heap where
  "heap0 = \<lparr>lists = (\<lambda>a. [])(0 := [message_type_attr]), next_ref = 2\<rparr>"

text \<open>
  The same inputs in another place: the list at another address, other lists in the
  store, and a signer that held another list before.
\<close>

definition builder1 :: PKIMessageBuilder where
  "builder1 = \<lparr>signers = [signer_A\<lparr>signed_attributes := 4\<rparr>], cms_attributes = 5,
               certificates = [cert_A], pki_envelope = None\<rparr>"

definition heap1 :: heap where
  "heap1 = \<lparr>lists = (\<lambda>a. [message_type_attr, message_type_attr])(5 := [message_type_attr]),
             next_ref = 6\<rparr>"

text \<open>
  An envelope for two recipients, as the envelope builder makes it with the stand-in
  library from \<open>rng0\<close>, a builder that signs it, the message that builder finishes
  (\<open>message2 [7]\<close>; with another octet string the signature is tampered with), a codec
  that knows these two structures, and the message as parsed.
\<close>

definition env1 :: PKCSPKIEnvelopeBuilder where
  "env1 = \<lparr>env_data = Some [65], env_encryption_algorithm_id = Some aes128_cbc,
           env_recipients = [cert_A, cert_B]\<rparr>"

definition key0 :: bytes where
  "key0 = [0, 1, 2, 3, 4, 5, 6, 7, 8, 9, 10, 11, 12, 13, 14, 15]"

definition iv0 :: bytes where
  "iv0 = [16, 17, 18, 19, 20, 21, 22, 23, 24, 25, 26, 27, 28, 29, 30, 31]"

definition ed1 :: EnvelopedData where
  "ed1 = \<lparr>ed_version = 1,
          ed_recipient_infos =
            [\<lparr>ktri_version = 0, ktri_rid = \<lparr>ias_issuer = ''CA'', ias_serial_number = 1\<rparr>,
              ktri_key_encryption_algorithm = rsa, ktri_encrypted_key = 7 # key0\<rparr>,
             \<lparr>ktri_version = 0, ktri_rid = \<lparr>ias_issuer = ''CA'', ias_serial_number = 2\<rparr>,
              ktri_key_encryption_algorithm = rsa, ktri_encrypted_key = 9 # key0\<rparr>],
          ed_encrypted_content_info =
            \<lparr>eci_content_type = CT_data,
             eci_content_encryption_algorithm = \<lparr>ea_algorithm = aes128_cbc, ea_parameters = iv0\<rparr>,
             eci_encrypted_content = [65, 15, 15, 15, 15, 15, 15, 15, 15, 15, 15, 15, 15, 15, 15, 15]\<rparr>\<rparr>"

definition builder2 :: PKIMessageBuilder where
  "builder2 = \<lparr>signers = [signer_A], cms_attributes = 0, certificates = [cert_A],
               pki_envelope = Some ed1\<rparr>"

definition signer_info2 :: "bytes \<Rightarrow> SignerInfo" where
  "signer_info2 s =
     \<lparr>si_version = 1,
      si_sid = issuer_and_serial_number \<lparr>ias_issuer = ''CA'', ias_serial_number = 1\<rparr>,
      si_digest_algorithm = DigestAlg sha256,
      si_signed_attrs = [content_type_attr CT_data, message_digest_attr [1], message_type_attr],
      si_signature_algorithm = rsassa_pkcs1v15, si_signature = s\<rparr>"

definition message2 :: "bytes \<Rightarrow> ContentInfo" where
  "message2 s =
     \<lparr>ci_content_type = CT_signed_data,
      ci_content = SignedDataContent
        \<lparr>sd_version = 1, sd_digest_algorithms = [DigestAlg sha1],
         sd_encap_content_info = \<lparr>encap_content_type = CT_data, encap_content = Some [1]\<rparr>,
         sd_certificates = [cert_A],
         sd_signer_infos = [signer_info2 s]\<rparr>\<rparr>"

definition toy_codec :: "bytes \<Rightarrow> crypto" where
  "toy_codec s =
     toy\<lparr>load := (\<lambda>b. if b = [2] then Some (message2 s)
                     else if b = [1] then Some (pkienvelope_content_info builder2)
                     else None)\<rparr>"

definition msg2 :: "bytes \<Rightarrow> SCEPMessage" where
  "msg2 s =
     \<lparr>msg_transaction_id = None, msg_message_type = PKCSReq, msg_sender_nonce = None,
      msg_recipient_nonce = None, msg_pki_status = None, msg_fail_info = None,
      msg_signer_info = Some (signer_info2 s), msg_signed_data = Some (Some [1]),
      msg_certificates = [cert_A]\<rparr>"

section \<open>Failure status without failure information\<close>

text \<open>
  C6. Setting the status to \<^verbatim>\<open>FAILURE\<close> with no \<^verbatim>\<open>failure_info\<close> raises at once, for
  every builder and every store. \<open>pki_status\<close> has no access to any cryptographic
  primitive: the exception leaves the setter before a digest, a signature or an
  encryption can run, and a call chained after it (\<^verbatim>\<open>.finalize()\<close>) is not reached.
  The status attribute, appended before the test, stays in the list.
\<close>

theorem pki_status_failure_requires_fail_info:
  "pki_status FAILURE None self h =
     (Some MissingFailInfo,
      list_append (cms_attributes self)
        \<lparr>attr_type = AT_pki_status, attr_values = [PrintableString ''2'']\<rparr> h)"
  by (simp add: pki_status_def)

section \<open>The signer and the attribute list\<close>

lemma sign_result:
  "sign p c ct d a s h =
     (\<lparr>si_version = 1, si_sid = sid s,
       si_digest_algorithm = DigestAlg (digest_algorithm_id s),
       si_signed_attrs = content_type_attr ct # message_digest_attr d # lists h a,
       si_signature_algorithm = rsassa_pkcs1v15,
       si_signature = rsa_sign p (signer_private_key s) (digest_algorithm_id s)
          (dump_attributes p (content_type_attr ct # message_digest_attr d # lists h a))\<rparr>,
      s\<lparr>signed_attributes := a\<rparr>,
      h\<lparr>lists := (lists h)(a := content_type_attr ct # message_digest_attr d # lists h a)\<rparr>)"
  by (simp add: sign_def Let_def list_insert0_def sid_def content_type_attr_def
        message_digest_attr_def)

lemma concat_replicate_comm: "concat (replicate n xs) @ xs = xs @ concat (replicate n xs)"
  by (induction n) simp_all

text \<open>Each signer puts two more attributes in front of the shared list.\<close>

lemma build_signerinfos_heap:
  "snd (snd (build_signerinfos p c d a ss h)) =
     h\<lparr>lists := (lists h)(a := concat (replicate (length ss)
                     [content_type_attr CT_data, message_digest_attr d]) @ lists h a)\<rparr>"
proof (induction ss arbitrary: h)
  case Nil
  show ?case by simp
next
  case (Cons s ss)
  let ?pre = "[content_type_attr CT_data, message_digest_attr d]"
  let ?h1 = "h\<lparr>lists := (lists h)(a := ?pre @ lists h a)\<rparr>"
  have step: "snd (snd (build_signerinfos p c d a (s # ss) h)) =
      snd (snd (build_signerinfos p c d a ss ?h1))"
    by (simp add: sign_result split_def Let_def)
  have eq: "concat (replicate (length ss) ?pre) @ ?pre @ lists h a =
      concat (replicate (length (s # ss)) ?pre) @ lists h a"
    using concat_replicate_comm [of "length ss" ?pre] by (simp del: append_same_eq)
  have "snd (snd (build_signerinfos p c d a (s # ss) h)) =
      h\<lparr>lists := (lists h)(a := concat (replicate (length ss) ?pre) @ ?pre @ lists h a)\<rparr>"
    unfolding step Cons.IH by simp
  then show ?case
    by (simp only: eq)
qed

text \<open>The signer at position \<open>k\<close> signs \<open>k + 1\<close> copies of the pair and then the list.\<close>

lemma build_signerinfos_attrs:
  "map si_signed_attrs (fst (build_signerinfos p c d a ss h)) =
     map (\<lambda>k. concat (replicate (Suc k) [content_type_attr CT_data, message_digest_attr d])
               @ lists h a) [0..<length ss]"
proof (induction ss arbitrary: h)
  case Nil
  show ?case by simp
next
  case (Cons s ss)
  let ?pre = "[content_type_attr CT_data, message_digest_attr d]"
  let ?h1 = "h\<lparr>lists := (lists h)(a := ?pre @ lists h a)\<rparr>"
  have step: "fst (build_signerinfos p c d a (s # ss) h) =
      fst (sign p c CT_data d a s h) # fst (build_signerinfos p c d a ss ?h1)"
    by (simp add: sign_result split_def Let_def)
  have comm: "\<And>k. concat (replicate k ?pre) @ ?pre @ lists h a =
      ?pre @ concat (replicate k ?pre) @ lists h a"
    using concat_replicate_comm [of _ ?pre] by (metis append_assoc)
  have "map si_signed_attrs (fst (build_signerinfos p c d a ss ?h1)) =
      map (\<lambda>k. concat (replicate (Suc (Suc k)) ?pre) @ lists h a) [0..<length ss]"
    unfolding Cons.IH using comm by simp
  then show ?case
    unfolding step by (simp add: sign_result upt_conv_Cons map_Suc_upt [symmetric] del: upt_Suc)
qed

lemma build_signerinfos_signers:
  "fst (snd (build_signerinfos p c d a ss h)) = map (\<lambda>s. s\<lparr>signed_attributes := a\<rparr>) ss"
  by (induction ss arbitrary: h) (simp_all add: sign_result split_def Let_def)

lemma build_signerinfos_digest_algorithm:
  "map si_digest_algorithm (fst (build_signerinfos p c d a ss h)) =
     map (\<lambda>s. DigestAlg (digest_algorithm_id s)) ss"
  by (induction ss arbitrary: h) (simp_all add: sign_result split_def Let_def)

lemma finalize_result:
  "PKIMessageBuilder_finalize p self h =
     (\<lparr>ci_content_type = CT_signed_data,
       ci_content = SignedDataContent
         \<lparr>sd_version = 1, sd_digest_algorithms = [DigestAlg sha1],
          sd_encap_content_info =
            \<lparr>encap_content_type = CT_data,
             encap_content = Some (dump p (pkienvelope_content_info self))\<rparr>,
          sd_certificates = certificates self,
          sd_signer_infos =
            fst (build_signerinfos p (dump p (pkienvelope_content_info self))
                   (hash p sha1 (dump p (pkienvelope_content_info self)))
                   (cms_attributes self) (signers self) h)\<rparr>\<rparr>,
      self\<lparr>signers := map (\<lambda>s. s\<lparr>signed_attributes := cms_attributes self\<rparr>) (signers self)\<rparr>,
      h\<lparr>lists := (lists h)(cms_attributes self :=
           concat (replicate (length (signers self))
             [content_type_attr CT_data,
              message_digest_attr (hash p sha1 (dump p (pkienvelope_content_info self)))])
           @ lists h (cms_attributes self))\<rparr>)"
  by (simp add: PKIMessageBuilder_finalize_def Let_def split_def
        build_signerinfos_signers build_signerinfos_heap)

lemma signer_infos_of_finalize:
  "signer_infos_of (fst (PKIMessageBuilder_finalize p self h)) =
     fst (build_signerinfos p (dump p (pkienvelope_content_info self))
            (hash p sha1 (dump p (pkienvelope_content_info self)))
            (cms_attributes self) (signers self) h)"
  by (simp add: finalize_result signer_infos_of_def)

lemma map_pair: "map (\<lambda>x. (f x, g x)) xs = zip (map f xs) (map g xs)"
  by (induction xs) simp_all

text \<open>
  C3. Every signer info of a finished message declares its signer's digest algorithm,
  and its message-digest attribute (the second signed attribute) is the SHA-1 digest of
  the DER of the inner ContentInfo, whatever the signer declared: \<^verbatim>\<open>finalize\<close> computes
  the digest once, with \<^verbatim>\<open>hashes.SHA1()\<close>. For a signer made with \<^verbatim>\<open>'sha256'\<close> the
  attribute is therefore not the SHA-256 digest the claim asks for.
\<close>

theorem message_digest_is_always_sha1:
  "map (\<lambda>si. (si_digest_algorithm si, take 2 (si_signed_attrs si)))
       (signer_infos_of (fst (PKIMessageBuilder_finalize p self h))) =
   map (\<lambda>s. (DigestAlg (digest_algorithm_id s),
              [content_type_attr CT_data,
               message_digest_attr (hash p sha1 (dump p (pkienvelope_content_info self)))]))
       (signers self)"
proof -
  let ?d = "hash p sha1 (dump p (pkienvelope_content_info self))"
  let ?pre = "[content_type_attr CT_data, message_digest_attr ?d]"
  let ?sis = "signer_infos_of (fst (PKIMessageBuilder_finalize p self h))"
  have a: "map si_digest_algorithm ?sis = map (\<lambda>s. DigestAlg (digest_algorithm_id s)) (signers self)"
    by (simp add: signer_infos_of_finalize build_signerinfos_digest_algorithm)
  have "map (\<lambda>si. take 2 (si_signed_attrs si)) ?sis = map (take 2) (map si_signed_attrs ?sis)"
    by simp
  also have "\<dots> = map (\<lambda>k. ?pre) [0..<length (signers self)]"
    unfolding signer_infos_of_finalize build_signerinfos_attrs by simp
  also have "\<dots> = map (\<lambda>s. ?pre) (signers self)"
    by (simp add: map_replicate_const)
  finally have b: "map (\<lambda>si. take 2 (si_signed_attrs si)) ?sis = map (\<lambda>s. ?pre) (signers self)" .
  show ?thesis
    unfolding map_pair [of si_digest_algorithm "\<lambda>si. take 2 (si_signed_attrs si)"]
      map_pair [of "\<lambda>s. DigestAlg (digest_algorithm_id s)" "\<lambda>s. ?pre"] a b ..
qed

text \<open>
  C7. With two signers the first signs content-type, message-digest and the builder's
  attributes, as the claim says; the second signs content-type, message-digest,
  content-type, message-digest and then the builder's attributes, because the first
  signer's two insertions went into the list both signers share.
\<close>

theorem second_signer_signs_duplicated_attributes:
  "map si_signed_attrs
     (signer_infos_of (fst (PKIMessageBuilder_finalize p
        \<lparr>signers = [s1, s2], cms_attributes = a, certificates = cs, pki_envelope = e\<rparr> h))) =
   (let ct = content_type_attr CT_data;
        md = message_digest_attr (hash p sha1 (dump p
               \<lparr>ci_content_type = CT_enveloped_data,
                ci_content = (case e of None \<Rightarrow> NoContent | Some x \<Rightarrow> EnvelopedDataContent x)\<rparr>))
    in [ct # md # lists h a, ct # md # ct # md # lists h a])"
  by (simp add: signer_infos_of_finalize sign_result Let_def pkienvelope_content_info_def)

text \<open>
  The same happens to one signer when \<^verbatim>\<open>finalize\<close> is called again on the builder: the
  second call starts from the list the first call left.
\<close>

lemma finalize_again_signs_more_attributes:
  "map si_signed_attrs (signer_infos_of (fst (PKIMessageBuilder_finalize p
      (fst (snd (PKIMessageBuilder_finalize p self h)))
      (snd (snd (PKIMessageBuilder_finalize p self h)))))) =
   map (\<lambda>k. concat (replicate (Suc k + length (signers self))
               [content_type_attr CT_data,
                message_digest_attr (hash p sha1 (dump p (pkienvelope_content_info self)))])
             @ lists h (cms_attributes self)) [0..<length (signers self)]"
proof -
  let ?b = "fst (snd (PKIMessageBuilder_finalize p self h))"
  let ?h = "snd (snd (PKIMessageBuilder_finalize p self h))"
  have b: "cms_attributes ?b = cms_attributes self" "length (signers ?b) = length (signers self)"
    "pkienvelope_content_info ?b = pkienvelope_content_info self"
    by (simp_all add: finalize_result pkienvelope_content_info_def)
  have l: "lists ?h (cms_attributes self) =
      concat (replicate (length (signers self))
        [content_type_attr CT_data,
         message_digest_attr (hash p sha1 (dump p (pkienvelope_content_info self)))])
      @ lists h (cms_attributes self)"
    by (simp add: finalize_result)
  show ?thesis
    unfolding signer_infos_of_finalize build_signerinfos_attrs b l
    by (simp add: replicate_add)
qed

text \<open>
  C10. With at least one signer, \<^verbatim>\<open>finalize\<close> changes the builder's own attribute list:
  the builder still holds the same list, the list is the old one with one
  content-type/message-digest pair per signer in front, so it begins with content-type
  and message-digest, and every signer now holds that very list.
\<close>

theorem finalize_prepends_to_builder_list:
  assumes "signers self \<noteq> []"
  shows "cms_attributes (fst (snd (PKIMessageBuilder_finalize p self h))) = cms_attributes self \<and>
     lists (snd (snd (PKIMessageBuilder_finalize p self h))) (cms_attributes self) =
       concat (replicate (length (signers self))
         [content_type_attr CT_data,
          message_digest_attr (hash p sha1 (dump p (pkienvelope_content_info self)))])
       @ lists h (cms_attributes self) \<and>
     take 2 (lists (snd (snd (PKIMessageBuilder_finalize p self h))) (cms_attributes self)) =
       [content_type_attr CT_data,
        message_digest_attr (hash p sha1 (dump p (pkienvelope_content_info self)))] \<and>
     (\<forall>s \<in> set (signers (fst (snd (PKIMessageBuilder_finalize p self h)))).
        signed_attributes s = cms_attributes self)"
proof -
  obtain s ss where "signers self = s # ss"
    using assms by (cases "signers self") auto
  then show ?thesis
    by (simp add: finalize_result)
qed

theorem finalize_prepends_to_builder_list_witness:
  "signers builder0 \<noteq> [] \<and>
   lists (snd (snd (PKIMessageBuilder_finalize toy builder0 heap0))) (cms_attributes builder0) =
     [content_type_attr CT_data, message_digest_attr [1], message_type_attr] \<and>
   map signed_attributes (signers (fst (snd (PKIMessageBuilder_finalize toy builder0 heap0)))) =
     [cms_attributes builder0]"
proof -
  have h: "signers builder0 \<noteq> []"
    by (simp add: builder0_def)
  have "map signed_attributes (signers (fst (snd (PKIMessageBuilder_finalize toy builder0 heap0)))) =
     [cms_attributes builder0]"
    using finalize_prepends_to_builder_list [OF h, of toy heap0]
    by (simp add: builder0_def finalize_result)
  then show ?thesis
    using h finalize_prepends_to_builder_list [OF h, of toy heap0]
    by (simp add: builder0_def heap0_def toy_def)
qed

section \<open>Reproducible building\<close>

lemma build_signerinfos_inputs:
  "map signer_inputs ss1 = map signer_inputs ss2 \<Longrightarrow> lists h1 a1 = lists h2 a2 \<Longrightarrow>
   fst (build_signerinfos p c d a1 ss1 h1) = fst (build_signerinfos p c d a2 ss2 h2)"
proof (induction ss1 arbitrary: ss2 h1 h2)
  case Nil
  then show ?case by simp
next
  case (Cons s ss1)
  then obtain t ss2' where ss2: "ss2 = t # ss2'" and st: "signer_inputs s = signer_inputs t"
    and rest: "map signer_inputs ss1 = map signer_inputs ss2'"
    by (cases ss2) auto
  let ?pre = "[content_type_attr CT_data, message_digest_attr d]"
  have "fst (build_signerinfos p c d a1 ss1 (h1\<lparr>lists := (lists h1)(a1 := ?pre @ lists h1 a1)\<rparr>)) =
        fst (build_signerinfos p c d a2 ss2' (h2\<lparr>lists := (lists h2)(a2 := ?pre @ lists h2 a2)\<rparr>))"
    by (rule Cons.IH [OF rest]) (simp add: Cons.prems(2))
  then show ?case
    using st Cons.prems(2)
    by (simp add: ss2 sign_result split_def Let_def signer_inputs_def sid_def)
qed

text \<open>
  C9. \<^verbatim>\<open>finalize\<close> reads no randomness and no clock (the signing-time attribute is
  commented out, PKCS#1 v1.5 signing is a function of key, digest and message), so the
  message is a function of the builder's inputs: two runs on builders with the same
  signers (certificate, key, digest name), the same attribute list contents, the same
  certificates and the same envelope give the same message and the same DER octets,
  wherever the lists are stored and whatever else the store holds. A second call on the
  same builder is not a run on an equal state when the builder has a signer: the first
  call has changed the attribute list (C10).
\<close>

theorem finalize_deterministic:
  assumes "builder_inputs b1 h1 = builder_inputs b2 h2"
  shows "fst (PKIMessageBuilder_finalize p b1 h1) = fst (PKIMessageBuilder_finalize p b2 h2) \<and>
         dump p (fst (PKIMessageBuilder_finalize p b1 h1)) =
         dump p (fst (PKIMessageBuilder_finalize p b2 h2))"
proof -
  from assms have s: "map signer_inputs (signers b1) = map signer_inputs (signers b2)"
    and l: "lists h1 (cms_attributes b1) = lists h2 (cms_attributes b2)"
    and c: "certificates b1 = certificates b2" and e: "pki_envelope b1 = pki_envelope b2"
    by (simp_all add: builder_inputs_def)
  have i: "pkienvelope_content_info b1 = pkienvelope_content_info b2"
    by (simp add: pkienvelope_content_info_def e)
  have "fst (PKIMessageBuilder_finalize p b1 h1) = fst (PKIMessageBuilder_finalize p b2 h2)"
    by (simp add: finalize_result i c build_signerinfos_inputs [OF s l])
  then show ?thesis by simp
qed

theorem finalize_deterministic_witness:
  "builder_inputs builder0 heap0 = builder_inputs builder1 heap1 \<and>
   builder0 \<noteq> builder1 \<and> heap0 \<noteq> heap1 \<and>
   fst (PKIMessageBuilder_finalize toy builder0 heap0) =
   fst (PKIMessageBuilder_finalize toy builder1 heap1)"
proof -
  have h: "builder_inputs builder0 heap0 = builder_inputs builder1 heap1"
    by (simp add: builder_inputs_def builder0_def builder1_def heap0_def heap1_def
          signer_inputs_def signer_A_def)
  show ?thesis
    using h finalize_deterministic [OF h, of toy]
    by (simp add: builder0_def builder1_def heap0_def heap1_def)
qed

section \<open>The envelope builder\<close>

text \<open>
  C2. With the algorithm \<^verbatim>\<open>'3des'\<close>, \<^verbatim>\<open>_encrypt_data\<close> reads 8 octets from the random
  source, not 24 (\<^verbatim>\<open>TripleDES(os.urandom(8))\<close>); the key that \<^verbatim>\<open>finalize\<close> wraps for the
  recipients and returns is those 8 octets three times over.
\<close>

theorem tripledes_key_is_eight_random_octets:
  "map_sum id (\<lambda>((ed, sk, iv), r'). key sk)
     (PKCSPKIEnvelopeBuilder_finalize p
        \<lparr>env_data = Some d, env_encryption_algorithm_id = Some tripledes_3key,
         env_recipients = cs\<rparr> r) =
   Inr (fst (urandom 8 r) @ fst (urandom 8 r) @ fst (urandom 8 r))
   \<and> length (fst (urandom 8 r)) = 8"
  by (simp add: PKCSPKIEnvelopeBuilder_finalize_def encrypt_data_def TripleDES_def Let_def
        urandom_def split_def)

text \<open>The two AES keys are 16 and 32 octets from the random source.\<close>

lemma aes_keys_are_random_octets:
  "map_sum id (\<lambda>((ed, sk, iv), r'). key sk)
     (PKCSPKIEnvelopeBuilder_finalize p
        \<lparr>env_data = Some d, env_encryption_algorithm_id = Some aes128_cbc,
         env_recipients = cs\<rparr> r) = Inr (fst (urandom 16 r))
   \<and> map_sum id (\<lambda>((ed, sk, iv), r'). key sk)
     (PKCSPKIEnvelopeBuilder_finalize p
        \<lparr>env_data = Some d, env_encryption_algorithm_id = Some aes256_cbc,
         env_recipients = cs\<rparr> r) = Inr (fst (urandom 32 r))"
  by (simp add: PKCSPKIEnvelopeBuilder_finalize_def encrypt_data_def AES_def Let_def
        urandom_def split_def)

text \<open>
  C8, as stated, fails: a builder with data, an algorithm and no recipient finalizes
  without an error.
\<close>

theorem finalize_without_recipients_counterexample:
  "env_recipients env0 = [] \<and>
   \<not> isl (PKCSPKIEnvelopeBuilder_finalize toy env0 rng0) \<and>
   PKCSPKIEnvelopeBuilder_finalize toy env0 rng0 \<noteq> Inl NoRecipients"
  by (simp add: env0_def PKCSPKIEnvelopeBuilder_finalize_def encrypt_data_def AES_def Let_def
        urandom_def split_def)

text \<open>
  C8, amended. The envelope builder does not count its recipients: after a successful
  \<^verbatim>\<open>encrypt\<close>, \<^verbatim>\<open>finalize\<close> on an empty recipient list returns an EnvelopedData whose
  recipient infos are empty.
\<close>

theorem finalize_without_recipients_succeeds:
  assumes "encrypt d algorithm self = (None, self')" and "env_recipients self' = []"
  shows "\<exists>ed sk iv r'. PKCSPKIEnvelopeBuilder_finalize p self' r = Inr ((ed, sk, iv), r')
           \<and> ed_recipient_infos ed = []"
  using assms
  by (auto simp: encrypt_def PKCSPKIEnvelopeBuilder_finalize_def encrypt_data_def Let_def split_def
       TripleDES_def AES_def urandom_def split: if_splits)

theorem finalize_without_recipients_succeeds_witness:
  "encrypt [65] (Some ''aes128'') PKCSPKIEnvelopeBuilder_init = (None, env0) \<and>
   env_recipients env0 = [] \<and>
   (\<exists>ed sk iv r'. PKCSPKIEnvelopeBuilder_finalize toy env0 rng0 = Inr ((ed, sk, iv), r')
           \<and> ed_recipient_infos ed = [])"
proof -
  have a: "encrypt [65] (Some ''aes128'') PKCSPKIEnvelopeBuilder_init = (None, env0)"
    by (simp add: encrypt_def PKCSPKIEnvelopeBuilder_init_def env0_def)
  have b: "env_recipients env0 = []"
    by (simp add: env0_def)
  show ?thesis
    using a b finalize_without_recipients_succeeds [OF a b, of toy rng0] by simp
qed

section \<open>The parser\<close>

lemma set_attribute_not_BadSignature: "set_attribute a msg \<noteq> Inl BadSignature"
  by (auto simp: set_attribute_def MessageType_of_def Let_def split: list.splits if_splits sum.splits)

lemma set_attributes_not_BadSignature: "set_attributes as msg \<noteq> Inl BadSignature"
  by (induction as arbitrary: msg) (auto simp: set_attribute_not_BadSignature split: sum.splits)

lemma parse_signer_info_not_BadSignature:
  "parse_signer_info p sd certs si msg \<noteq> Inl BadSignature"
  by (auto simp: parse_signer_info_def Let_def set_attributes_not_BadSignature
      split: SignerIdentifier.splits DigestAlgorithmId.splits option.splits sum.splits if_splits)

lemma parse_signer_infos_not_BadSignature:
  "parse_signer_infos p sd certs sis msg \<noteq> Inl BadSignature"
  by (induction sis arbitrary: msg)
     (auto simp: parse_signer_info_not_BadSignature split: sum.splits)

lemma parse_signer_info_verify:
  "parse_signer_info (p\<lparr>rsa_verify := v\<rparr>) sd certs si msg = parse_signer_info p sd certs si msg"
  by (simp add: parse_signer_info_def Let_def
      split: SignerIdentifier.splits DigestAlgorithmId.splits option.splits)

lemma parse_signer_infos_verify:
  "parse_signer_infos (p\<lparr>rsa_verify := v\<rparr>) sd certs sis msg =
   parse_signer_infos p sd certs sis msg"
  by (induction sis arbitrary: msg) (simp_all add: parse_signer_info_verify split: sum.splits)

text \<open>
  C1. \<^verbatim>\<open>parse\<close> builds a verifier and never asks it: the result of \<^verbatim>\<open>parse\<close> is the same
  whatever RSA verification would answer, also when it rejects every signature, and no
  input makes \<^verbatim>\<open>parse\<close> report a bad signature.
\<close>

theorem parse_reports_no_bad_signature:
  "parse (p\<lparr>rsa_verify := v\<rparr>) raw = parse p raw \<and> parse p raw \<noteq> Inl BadSignature"
  by (auto simp: parse_def Let_def split_def parse_signer_infos_verify
        parse_signer_infos_not_BadSignature
      split: option.splits Content.splits sum.splits if_splits)

text \<open>
  C5. \<^verbatim>\<open>get_decrypted_envelope_data\<close> does not read its certificate: the result is the
  same for every certificate, and it is never the error of an unknown recipient.
\<close>

theorem decryption_ignores_recipient_certificate:
  "get_decrypted_envelope_data p msg certificate k =
     get_decrypted_envelope_data p msg certificate' k
   \<and> get_decrypted_envelope_data p msg certificate k \<noteq> Inl UnknownRecipient"
  by (auto simp: get_decrypted_envelope_data_def encap_content_info_def TripleDES_def AES_def Let_def
       split: sum.splits option.splits Content.splits list.splits if_splits)

section \<open>Decrypting what was built\<close>

lemma PKCS7_pad_longer:
  "bs \<in> {64, 128} \<Longrightarrow> length (PKCS7_pad bs d) > length d"
  by (auto simp: PKCS7_pad_def Let_def)

lemma envelope_finalize_shape:
  assumes "PKCSPKIEnvelopeBuilder_finalize p
      \<lparr>env_data = Some plain, env_encryption_algorithm_id = Some alg, env_recipients = c # cs\<rparr> r =
      Inr ((ed, sk, iv), r')"
  shows "\<exists>ri ris r1. ed_recipient_infos ed = ri # ris \<and>
      ktri_key_encryption_algorithm ri = rsa \<and>
      ktri_encrypted_key ri = fst (rsa_encrypt p (cert_public_key c) (key sk) r1) \<and>
      eci_content_encryption_algorithm (ed_encrypted_content_info ed) =
        \<lparr>ea_algorithm = alg, ea_parameters = iv\<rparr> \<and>
      eci_encrypted_content (ed_encrypted_content_info ed) =
        cbc_encrypt p sk iv (PKCS7_pad (padder_block_size alg) plain) \<and>
      (encryption_cipher alg = ''aes'' \<and> AES (key sk) = Inr sk \<or>
       encryption_cipher alg = ''tripledes'' \<and> TripleDES (key sk) = Inr sk) \<and>
      padder_block_size alg \<in> {64, 128}"
proof (cases alg)
  case tripledes_3key
  with assms show ?thesis
    by (auto simp: PKCSPKIEnvelopeBuilder_finalize_def encrypt_data_def build_recipient_info_def
        TripleDES_def Let_def urandom_def split_def TripleDES_block_size_def)
next
  case aes128_cbc
  with assms show ?thesis
    by (auto simp: PKCSPKIEnvelopeBuilder_finalize_def encrypt_data_def build_recipient_info_def
        AES_def Let_def urandom_def split_def AES_block_size_def)
next
  case aes256_cbc
  with assms show ?thesis
    by (auto simp: PKCSPKIEnvelopeBuilder_finalize_def encrypt_data_def build_recipient_info_def
        AES_def Let_def urandom_def split_def AES_block_size_def)
next
  case (OtherEncryptionAlg s)
  with assms show ?thesis
    by (simp add: PKCSPKIEnvelopeBuilder_finalize_def encrypt_data_def)
qed

lemma parse_signed_data:
  assumes "parse p raw = Inr msg" and "load p raw = Some cinfo"
    and "ci_content cinfo = SignedDataContent sd"
  shows "msg_signed_data msg = Some (encap_content (sd_encap_content_info sd))"
  using assms
  by (auto simp: parse_def Let_def split_def split: if_splits sum.splits)

lemma rng0_key: "map rng0 [0..<16] = key0"
  by code_simp

lemma rng0_iv: "map (\<lambda>i. rng0 (i + 16)) [0..<16] = iv0"
  by code_simp

lemma pad_example: "PKCS7_pad 128 [65] = [65, 15, 15, 15, 15, 15, 15, 15, 15, 15, 15, 15, 15, 15, 15, 15]"
  by code_simp

lemma env1_finalize:
  "map_sum id fst (PKCSPKIEnvelopeBuilder_finalize (toy_codec s)
      \<lparr>env_data = Some [65], env_encryption_algorithm_id = Some aes128_cbc,
       env_recipients = [cert_A, cert_B]\<rparr> rng0) = Inr (ed1, AES_key key0, iv0)"
  by (simp add: PKCSPKIEnvelopeBuilder_finalize_def encrypt_data_def build_recipient_info_def
        AES_def Let_def urandom_def split_def toy_codec_def toy_def cert_A_def cert_B_def
        ed1_def rng0_key rng0_iv pad_example AES_block_size_def)
     (simp add: key0_def)

lemma builder2_finalize:
  "fst (PKIMessageBuilder_finalize (toy_codec s) builder2 heap0) = message2 [7]"
  by (simp add: finalize_result sign_result builder2_def heap0_def toy_codec_def toy_def
        message2_def signer_info2_def signer_A_def sid_def cert_A_def pkienvelope_content_info_def)

lemma parse_message2:
  "parse (toy_codec s) [2] = Inr (msg2 s)"
  by (simp add: parse_def parse_signer_info_def set_attribute_def MessageType_of_def Let_def
        toy_codec_def toy_def message2_def signer_info2_def msg2_def SCEPMessage_init_def
        cert_A_def content_type_attr_def message_digest_attr_def message_type_attr_def)

text \<open>
  C4. Build an envelope for a plaintext with the recipient \<open>c\<close> first in the list, sign
  it, encode it, parse it, and decrypt with the key that belongs to \<open>c\<close>, with a library
  whose codec, RSA and CBC round-trip: the result is the plaintext with its PKCS#7
  padding still attached, never the plaintext. \<^verbatim>\<open>get_decrypted_envelope_data\<close> returns
  what the CBC decryptor returns; there is no unpadder and no padding error.
\<close>

theorem decrypted_content_keeps_padding:
  assumes env: "map_sum id fst (PKCSPKIEnvelopeBuilder_finalize p
      \<lparr>env_data = Some plain, env_encryption_algorithm_id = Some alg, env_recipients = c # cs\<rparr> r) =
      Inr (ed, sk, iv)"
    and envelope: "pki_envelope b = Some ed"
    and parsed: "parse p (dump p (fst (PKIMessageBuilder_finalize p b h))) = Inr msg"
    and codec_outer: "load p (dump p (fst (PKIMessageBuilder_finalize p b h))) =
        Some (fst (PKIMessageBuilder_finalize p b h))"
    and codec_inner: "load p (dump p (pkienvelope_content_info b)) = Some (pkienvelope_content_info b)"
    and rsa_roundtrip: "\<forall>m r. rsa_decrypt p k (fst (rsa_encrypt p (cert_public_key c) m r)) = Some m"
    and cbc_roundtrip: "\<forall>sk iv x. cbc_decrypt p sk iv (cbc_encrypt p sk iv x) = Some x"
  shows "get_decrypted_envelope_data p msg c k = Inr (PKCS7_pad (padder_block_size alg) plain) \<and>
         get_decrypted_envelope_data p msg c k \<noteq> Inr plain"
proof -
  from env obtain r' where fin: "PKCSPKIEnvelopeBuilder_finalize p
      \<lparr>env_data = Some plain, env_encryption_algorithm_id = Some alg, env_recipients = c # cs\<rparr> r =
      Inr ((ed, sk, iv), r')"
    by (cases "PKCSPKIEnvelopeBuilder_finalize p
      \<lparr>env_data = Some plain, env_encryption_algorithm_id = Some alg, env_recipients = c # cs\<rparr> r")
       auto
  from envelope_finalize_shape [OF fin] obtain ri ris r1 where
    ris: "ed_recipient_infos ed = ri # ris" and
    alg_rsa: "ktri_key_encryption_algorithm ri = rsa" and
    ek: "ktri_encrypted_key ri = fst (rsa_encrypt p (cert_public_key c) (key sk) r1)" and
    cea: "eci_content_encryption_algorithm (ed_encrypted_content_info ed) =
        \<lparr>ea_algorithm = alg, ea_parameters = iv\<rparr>" and
    ct: "eci_encrypted_content (ed_encrypted_content_info ed) =
        cbc_encrypt p sk iv (PKCS7_pad (padder_block_size alg) plain)" and
    ctor: "encryption_cipher alg = ''aes'' \<and> AES (key sk) = Inr sk \<or>
       encryption_cipher alg = ''tripledes'' \<and> TripleDES (key sk) = Inr sk" and
    bs: "padder_block_size alg \<in> {64, 128}"
    by blast
  have "msg_signed_data msg = Some (Some (dump p (pkienvelope_content_info b)))"
    using parse_signed_data [OF parsed codec_outer] by (simp add: finalize_result)
  then have encap: "encap_content_info p msg = Inr (pkienvelope_content_info b)"
    by (simp add: encap_content_info_def codec_inner)
  have inner: "ci_content (pkienvelope_content_info b) = EnvelopedDataContent ed"
    by (simp add: pkienvelope_content_info_def envelope)
  have key: "rsa_decrypt p k (ktri_encrypted_key ri) = Some (key sk)"
    using rsa_roundtrip by (simp add: ek)
  have res: "get_decrypted_envelope_data p msg c k =
      Inr (PKCS7_pad (padder_block_size alg) plain)"
    using ctor
    by (auto simp: get_decrypted_envelope_data_def encap inner ris alg_rsa key cea ct
          cbc_roundtrip [rule_format] Let_def)
  have "PKCS7_pad (padder_block_size alg) plain \<noteq> plain"
    using PKCS7_pad_longer [OF bs, of plain] by auto
  with res show ?thesis by simp
qed

theorem decrypted_content_keeps_padding_witness:
  "map_sum id fst (PKCSPKIEnvelopeBuilder_finalize (toy_codec [7])
      \<lparr>env_data = Some [65], env_encryption_algorithm_id = Some aes128_cbc,
       env_recipients = [cert_A, cert_B]\<rparr> rng0) = Inr (ed1, AES_key key0, iv0) \<and>
   pki_envelope builder2 = Some ed1 \<and>
   parse (toy_codec [7]) (dump (toy_codec [7])
     (fst (PKIMessageBuilder_finalize (toy_codec [7]) builder2 heap0))) = Inr (msg2 [7]) \<and>
   load (toy_codec [7]) (dump (toy_codec [7])
     (fst (PKIMessageBuilder_finalize (toy_codec [7]) builder2 heap0))) =
     Some (fst (PKIMessageBuilder_finalize (toy_codec [7]) builder2 heap0)) \<and>
   load (toy_codec [7]) (dump (toy_codec [7]) (pkienvelope_content_info builder2)) =
     Some (pkienvelope_content_info builder2) \<and>
   (\<forall>m r. rsa_decrypt (toy_codec [7]) 7
      (fst (rsa_encrypt (toy_codec [7]) (cert_public_key cert_A) m r)) = Some m) \<and>
   (\<forall>sk iv x. cbc_decrypt (toy_codec [7]) sk iv (cbc_encrypt (toy_codec [7]) sk iv x) = Some x) \<and>
   get_decrypted_envelope_data (toy_codec [7]) (msg2 [7]) cert_A 7 =
     Inr [65, 15, 15, 15, 15, 15, 15, 15, 15, 15, 15, 15, 15, 15, 15, 15] \<and>
   get_decrypted_envelope_data (toy_codec [7]) (msg2 [7]) cert_A 7 \<noteq> Inr [65]"
proof -
  have dump_outer: "dump (toy_codec [7]) (message2 [7]) = [2]"
    by (simp add: toy_codec_def toy_def message2_def)
  have dump_inner: "dump (toy_codec [7]) (pkienvelope_content_info builder2) = [1]"
    by (simp add: toy_codec_def toy_def pkienvelope_content_info_def)
  have env: "map_sum id fst (PKCSPKIEnvelopeBuilder_finalize (toy_codec [7])
      \<lparr>env_data = Some [65], env_encryption_algorithm_id = Some aes128_cbc,
       env_recipients = cert_A # [cert_B]\<rparr> rng0) = Inr (ed1, AES_key key0, iv0)"
    by (rule env1_finalize)
  have envelope: "pki_envelope builder2 = Some ed1"
    by (simp add: builder2_def)
  have parsed: "parse (toy_codec [7]) (dump (toy_codec [7])
     (fst (PKIMessageBuilder_finalize (toy_codec [7]) builder2 heap0))) = Inr (msg2 [7])"
    by (simp add: builder2_finalize dump_outer parse_message2)
  have codec_outer: "load (toy_codec [7]) (dump (toy_codec [7])
     (fst (PKIMessageBuilder_finalize (toy_codec [7]) builder2 heap0))) =
     Some (fst (PKIMessageBuilder_finalize (toy_codec [7]) builder2 heap0))"
    by (simp add: builder2_finalize dump_outer) (simp add: toy_codec_def)
  have codec_inner: "load (toy_codec [7]) (dump (toy_codec [7]) (pkienvelope_content_info builder2)) =
     Some (pkienvelope_content_info builder2)"
    by (simp add: dump_inner) (simp add: toy_codec_def)
  have rsa_roundtrip: "\<forall>m r. rsa_decrypt (toy_codec [7]) 7
      (fst (rsa_encrypt (toy_codec [7]) (cert_public_key cert_A) m r)) = Some m"
    by (simp add: toy_codec_def toy_def cert_A_def)
  have cbc_roundtrip: "\<forall>sk iv x. cbc_decrypt (toy_codec [7]) sk iv
      (cbc_encrypt (toy_codec [7]) sk iv x) = Some x"
    by (simp add: toy_codec_def toy_def)
  show ?thesis
    using env envelope parsed codec_outer codec_inner rsa_roundtrip cbc_roundtrip
      decrypted_content_keeps_padding [OF env envelope parsed codec_outer codec_inner rsa_roundtrip cbc_roundtrip]
    by (simp add: AES_block_size_def pad_example)
qed

text \<open>
  With two recipients, the second one cannot decrypt with its own certificate and key:
  the code takes the first recipient info, which holds the key wrapped for the first
  recipient.
\<close>

lemma second_recipient_cannot_decrypt:
  "map ktri_rid (ed_recipient_infos ed1) =
     [\<lparr>ias_issuer = cert_issuer cert_A, ias_serial_number = cert_serial_number cert_A\<rparr>,
      \<lparr>ias_issuer = cert_issuer cert_B, ias_serial_number = cert_serial_number cert_B\<rparr>] \<and>
   get_decrypted_envelope_data (toy_codec [7]) (msg2 [7]) cert_B 9 = Inl ValueError"
  by (simp add: get_decrypted_envelope_data_def encap_content_info_def msg2_def toy_codec_def
        toy_def pkienvelope_content_info_def builder2_def ed1_def cert_A_def cert_B_def key0_def)

text \<open>
  The message \<open>message2 [6]\<close> carries a signature the signer's key does not verify, and
  \<^verbatim>\<open>parse\<close> returns it as a message.
\<close>

lemma tampered_signature_is_accepted:
  "\<not> rsa_verify (toy_codec [6]) (cert_public_key cert_A) [6] sha256
       (dump_attributes (toy_codec [6]) (si_signed_attrs (signer_info2 [6]))) \<and>
   load (toy_codec [6]) [2] = Some (message2 [6]) \<and>
   parse (toy_codec [6]) [2] = Inr (msg2 [6])"
  by (simp add: parse_message2) (simp add: toy_codec_def toy_def cert_A_def)

end
